theory Spec2Isabelle
  imports Main "HOL-Library.Sublist"
begin

section \<open>Python dictionaries\<close>

text \<open>
  The module keeps its data in Python dictionaries. A dictionary iterates in insertion
  order; assigning to a key that is already present keeps the key where it is, assigning
  to a new key appends it. The order decides the layout, so a dictionary is an
  association list here. \<open>del d[k]\<close> raises \<open>KeyError\<close> when the key is absent.
\<close>

type_synonym ('k, 'v) dict = "('k \<times> 'v) list"

datatype error = KeyError | SyntaxError

definition dict_contains :: "('k, 'v) dict \<Rightarrow> 'k \<Rightarrow> bool" where
  "dict_contains d k = (k \<in> set (map fst d))"

definition dict_get :: "('k, 'v) dict \<Rightarrow> 'k \<Rightarrow> 'v option" where
  "dict_get d k = map_of d k"

fun dict_set :: "('k, 'v) dict \<Rightarrow> 'k \<Rightarrow> 'v \<Rightarrow> ('k, 'v) dict" where
  "dict_set [] k v = [(k, v)]"
| "dict_set ((k', v') # d) k v =
     (if k' = k then (k, v) # d else (k', v') # dict_set d k v)"

definition dict_del :: "('k, 'v) dict \<Rightarrow> 'k \<Rightarrow> error + ('k, 'v) dict" where
  "dict_del d k =
     (if dict_contains d k then Inr (filter (\<lambda>kv. fst kv \<noteq> k) d) else Inl KeyError)"

section \<open>The store: \<open>companies\<close>, \<open>logo_urls\<close>, \<open>logos\<close>\<close>

text \<open>
  \<open>companies\<close> is a dictionary with the four quadrant names as keys, in the order of
  the literal in the source. No statement of the module adds or removes one of these
  keys (only the inner dictionaries change, and the reset assigns the same literal
  again), so the outer dictionary is a function on a four-element type; \<open>quadrants\<close> is
  its iteration order and \<open>quadrant_key\<close> is the lookup of a string key, which fails
  for any other string.
\<close>

datatype quadrant = Visionaries_Innovators | Leaders | Niche_Players | Challengers

definition quadrants :: "quadrant list" where
  "quadrants = [Visionaries_Innovators, Leaders, Niche_Players, Challengers]"

fun quadrant_name :: "quadrant \<Rightarrow> string" where
  "quadrant_name Visionaries_Innovators = ''Visionaries/Innovators''"
| "quadrant_name Leaders = ''Leaders''"
| "quadrant_name Niche_Players = ''Niche Players''"
| "quadrant_name Challengers = ''Challengers''"

definition quadrant_key :: "string \<Rightarrow> quadrant option" where
  "quadrant_key s =
     (if s = ''Visionaries/Innovators'' then Some Visionaries_Innovators
      else if s = ''Leaders'' then Some Leaders
      else if s = ''Niche Players'' then Some Niche_Players
      else if s = ''Challengers'' then Some Challengers
      else None)"

record details =
  dual_use :: bool

record state =
  companies :: "quadrant \<Rightarrow> (string, details) dict"
  logo_urls :: "(string, string) dict"
  logos :: "(string, string option) dict"

definition initial_state :: state where
  "initial_state = \<lparr>companies = (\<lambda>q. []), logo_urls = [], logos = []\<rparr>"

section \<open>\<open>fetch_logo\<close>\<close>

text \<open>
  The download, the resizing and the base64 encoding are outside the program: \<open>resolve\<close>
  stands for them and gives the encoded image, or \<open>None\<close> where the source catches an
  exception. \<open>fetch_logo\<close> returns the data URI, or \<open>None\<close>.
\<close>

type_synonym resolver = "string \<Rightarrow> string \<Rightarrow> string option"

definition fetch_logo :: "resolver \<Rightarrow> string \<Rightarrow> string \<Rightarrow> string option" where
  "fetch_logo resolve nm url =
     (case resolve nm url of
        Some encoded_logo \<Rightarrow> Some (''data:image/png;base64,'' @ encoded_logo)
      | None \<Rightarrow> None)"

section \<open>\<open>update_chart\<close>\<close>

text \<open>
  The figure is the list of layout images, in the order \<open>add_layout_image\<close> appends
  them. Axis ranges, labels and divider lines are the same for every figure and are left
  out. (The later \<open>update_layout(images=[])\<close> merges an empty update into the images
  already there and leaves them in place.)
\<close>

record layout_image =
  img_source :: string
  img_x :: int
  img_y :: int
  img_sizex :: int
  img_sizey :: int

type_synonym figure = "layout_image list"

fun positions :: "quadrant \<Rightarrow> int \<times> int" where
  "positions Leaders = (75, 75)"
| "positions Challengers = (75, 25)"
| "positions Visionaries_Innovators = (25, 75)"
| "positions Niche_Players = (25, 25)"

text \<open>\<open>logos.get(company)\<close>: \<open>None\<close> for a missing key and for a stored \<open>None\<close>.\<close>

definition logos_get :: "(string, string option) dict \<Rightarrow> string \<Rightarrow> string option" where
  "logos_get lg company = (case dict_get lg company of None \<Rightarrow> None | Some v \<Rightarrow> v)"

text \<open>The dictionary comprehension of the filter, and the alias of the other branch.\<close>

definition filtered_companies ::
  "bool \<Rightarrow> (quadrant \<Rightarrow> (string, details) dict) \<Rightarrow> (quadrant \<Rightarrow> (string, details) dict)" where
  "filtered_companies dual_use_filter cs =
     (if dual_use_filter
      then (\<lambda>q. filter (\<lambda>(company, d). dual_use d) (cs q))
      else cs)"

text \<open>
  The inner loop over \<open>enumerate(company_dict.items())\<close>; \<open>if logo:\<close> is false for
  \<open>None\<close> and for the empty string.
\<close>

fun add_logos ::
  "(string, string option) dict \<Rightarrow> int \<times> int \<Rightarrow> (nat \<times> string \<times> details) list \<Rightarrow> figure \<Rightarrow> figure" where
  "add_logos lg xy [] fig = fig"
| "add_logos lg xy ((i, company, d) # rest) fig =
     (case logos_get lg company of
        None \<Rightarrow> add_logos lg xy rest fig
      | Some logo \<Rightarrow>
          if logo \<noteq> [] then
            add_logos lg xy rest
              (fig @ [\<lparr>img_source = logo,
                       img_x = fst xy + int (i mod 3) * 10,
                       img_y = snd xy - int (i div 3) * 10,
                       img_sizex = 10, img_sizey = 10\<rparr>])
          else add_logos lg xy rest fig)"

fun chart_loop ::
  "(string, string option) dict \<Rightarrow> (quadrant \<Rightarrow> (string, details) dict) \<Rightarrow> quadrant list \<Rightarrow> figure \<Rightarrow> figure" where
  "chart_loop lg fc [] fig = fig"
| "chart_loop lg fc (q # qs) fig =
     chart_loop lg fc qs (add_logos lg (positions q) (enumerate 0 (fc q)) fig)"

definition update_chart :: "state \<Rightarrow> bool \<Rightarrow> figure" where
  "update_chart st dual_use_filter =
     chart_loop (logos st) (filtered_companies dual_use_filter (companies st)) quadrants []"

section \<open>\<open>generate_company_list\<close> and \<open>generate_csv\<close>\<close>

text \<open>
  A roster entry is the image source, the company name and the \<open>index\<close> of the delete
  button's id. The export is the list \<open>data\<close> of records; turning it into CSV text and
  base64 is the work of the libraries.
\<close>

type_synonym roster = "(string \<times> (string option \<times> string \<times> string) list) list"

definition generate_company_list :: "state \<Rightarrow> roster" where
  "generate_company_list st =
     map (\<lambda>q. (quadrant_name q,
                map (\<lambda>(company, d). (logos_get (logos st) company, company, company))
                    (companies st q)))
         quadrants"

record csv_row =
  Company :: string
  Quadrant :: string
  Dual_Use :: bool

fun csv_inner :: "string \<Rightarrow> (string, details) dict \<Rightarrow> csv_row list \<Rightarrow> csv_row list" where
  "csv_inner qn [] data = data"
| "csv_inner qn ((company, d) # rest) data =
     csv_inner qn rest (data @ [\<lparr>Company = company, Quadrant = qn, Dual_Use = dual_use d\<rparr>])"

fun csv_outer ::
  "(quadrant \<Rightarrow> (string, details) dict) \<Rightarrow> quadrant list \<Rightarrow> csv_row list \<Rightarrow> csv_row list" where
  "csv_outer cs [] data = data"
| "csv_outer cs (q # qs) data = csv_outer cs qs (csv_inner (quadrant_name q) (cs q) data)"

definition generate_csv :: "state \<Rightarrow> csv_row list" where
  "generate_csv st = csv_outer (companies st) quadrants []"

section \<open>The triggering property id\<close>

text \<open>\<open>sub in s\<close> on strings.\<close>

fun str_in :: "string \<Rightarrow> string \<Rightarrow> bool" where
  "str_in sub [] = (sub = [])"
| "str_in sub (c # cs) = (prefix sub (c # cs) \<or> str_in sub cs)"

text \<open>
  The callback has five inputs. The framework names the one that fired as
  \<open>id.property\<close>; the id of a delete button is a dictionary, written as JSON with its
  keys sorted. The first call of the callback, when the page loads, has the id \<open>.\<close>.
  JSON escapes the double quote and the backslash of a name.
\<close>

fun json_escape :: "string \<Rightarrow> string" where
  "json_escape [] = []"
| "json_escape (c # cs) =
     (if c = CHR 0x22 \<or> c = CHR 0x5C then CHR 0x5C # c # json_escape cs
      else c # json_escape cs)"

definition delete_button_id :: "string \<Rightarrow> string" where
  \<open>delete_button_id nm = ''{"index":"'' @ json_escape nm @ ''","type":"delete-button"}''\<close>

datatype trigger =
  Page_Load | Title_Input | Add_Company_Button | Dual_Use_Filter | Reset_Graph_Button
| Delete_Button string

fun prop_id :: "trigger \<Rightarrow> string" where
  "prop_id Page_Load = ''.''"
| "prop_id Title_Input = ''title-input.value''"
| "prop_id Add_Company_Button = ''add-company-button.n_clicks''"
| "prop_id Dual_Use_Filter = ''dual-use-filter.value''"
| "prop_id Reset_Graph_Button = ''reset-graph-button.n_clicks''"
| "prop_id (Delete_Button nm) = delete_button_id nm @ ''.n_clicks''"

text \<open>\<open>s.split('.')[0]\<close>: the text before the first dot.\<close>

definition split_dot_0 :: "string \<Rightarrow> string" where
  "split_dot_0 s = takeWhile (\<lambda>c. c \<noteq> CHR ''.'') s"

text \<open>
  \<open>eval(text)['index']\<close> for the texts the callback can meet: the id of a delete button,
  whole or cut by the split. The text is read as a Python dictionary display with the two
  string keys; the body of the string literal ends at the first double quote that is not
  escaped. Any other text is a \<open>SyntaxError\<close>, which the handler catches.
\<close>

fun drop_prefix :: "string \<Rightarrow> string \<Rightarrow> string option" where
  "drop_prefix [] s = Some s"
| "drop_prefix (p # ps) [] = None"
| "drop_prefix (p # ps) (c # cs) = (if p = c then drop_prefix ps cs else None)"

fun str_literal_body :: "string \<Rightarrow> (string \<times> string) option" where
  "str_literal_body [] = None"
| "str_literal_body [c] = (if c = CHR 0x22 then Some ([], []) else None)"
| "str_literal_body (c # e # cs) =
     (if c = CHR 0x22 then Some ([], e # cs)
      else if c = CHR 0x5C then
        (if e = CHR 0x22 \<or> e = CHR 0x5C
         then (case str_literal_body cs of
                 None \<Rightarrow> None
               | Some (body, rest) \<Rightarrow> Some (e # body, rest))
         else None)
      else (case str_literal_body (e # cs) of
              None \<Rightarrow> None
            | Some (body, rest) \<Rightarrow> Some (c # body, rest)))"

definition eval_index :: "string \<Rightarrow> error + string" where
  \<open>eval_index text =
     (case drop_prefix ''{"index":"'' text of
        None \<Rightarrow> Inl SyntaxError
      | Some after_key \<Rightarrow>
          (case str_literal_body after_key of
             None \<Rightarrow> Inl SyntaxError
           | Some (body, rest) \<Rightarrow>
               if rest = '',"type":"delete-button"}'' then Inr body else Inl SyntaxError))\<close>

section \<open>\<open>update_output\<close>\<close>

text \<open>
  One call of the callback. The fields of a request are the arguments of the callback and
  the property id of \<open>ctx.triggered[0]\<close>; \<open>quadrant_value\<close> and \<open>dual_use_value\<close>
  are its arguments \<open>quadrant\<close> and \<open>dual_use\<close>. A text input is \<open>None\<close> or a string, a
  checklist is \<open>None\<close> or a list of strings.
\<close>

record request =
  triggered_id :: string
  title :: string
  n_add_clicks :: int
  dual_use_filter :: "string list option"
  n_reset_clicks :: int
  n_delete_clicks :: "int list"
  company_name :: "string option"
  quadrant_value :: "string option"
  dual_use_value :: "string list option"
  logo_url :: "string option"

text \<open>\<open>bool(dual_use)\<close> for \<open>None\<close> or a list.\<close>

definition bool_of :: "string list option \<Rightarrow> bool" where
  "bool_of v = (case v of None \<Rightarrow> False | Some l \<Rightarrow> l \<noteq> [])"

text \<open>
  The block \<open>Handle company addition\<close>. A key of \<open>companies\<close> that does not exist raises
  \<open>KeyError\<close> before anything is assigned, and the exception leaves the callback.
\<close>

definition handle_add :: "resolver \<Rightarrow> state \<Rightarrow> request \<Rightarrow> error + state" where
  "handle_add resolve st req =
     (if str_in ''add-company-button'' (triggered_id req) then
        (case (company_name req, quadrant_value req, logo_url req) of
           (Some nm, Some qv, Some url) \<Rightarrow>
             if nm \<noteq> [] \<and> qv \<noteq> [] \<and> url \<noteq> [] then
               (case quadrant_key qv of
                  None \<Rightarrow> Inl KeyError
                | Some q \<Rightarrow>
                    Inr (st\<lparr>companies :=
                              (companies st)
                                (q := dict_set (companies st q) nm
                                        \<lparr>dual_use = bool_of (dual_use_value req)\<rparr>),
                            logo_urls := dict_set (logo_urls st) nm url,
                            logos := dict_set (logos st) nm (fetch_logo resolve nm url)\<rparr>))
             else Inr st
         | _ \<Rightarrow> Inr st)
      else Inr st)"

text \<open>
  The block \<open>Handle company deletion\<close>. The loop stops at the first quadrant that holds
  the name. An exception inside the \<open>try\<close> is printed and what was assigned before it
  stays: a \<open>KeyError\<close> of \<open>del logos[...]\<close> comes after the company is deleted.
\<close>

fun delete_loop :: "string \<Rightarrow> quadrant list \<Rightarrow> state \<Rightarrow> state" where
  "delete_loop company_to_delete [] st = st"
| "delete_loop company_to_delete (q # qs) st =
     (if dict_contains (companies st q) company_to_delete then
        (case dict_del (companies st q) company_to_delete of
           Inl e \<Rightarrow> st
         | Inr company_dict \<Rightarrow>
             (let st' = st\<lparr>companies := (companies st)(q := company_dict)\<rparr> in
              case dict_del (logos st') company_to_delete of
                Inl e \<Rightarrow> st'
              | Inr lg \<Rightarrow> st'\<lparr>logos := lg\<rparr>))
      else delete_loop company_to_delete qs st)"

definition handle_delete :: "state \<Rightarrow> request \<Rightarrow> state" where
  "handle_delete st req =
     (if str_in ''delete-button'' (triggered_id req) then
        (case eval_index (split_dot_0 (triggered_id req)) of
           Inl e \<Rightarrow> st
         | Inr company_to_delete \<Rightarrow> delete_loop company_to_delete quadrants st)
      else st)"

text \<open>
  \<open>dual_use_filter and 'dual_use' in dual_use_filter\<close>, as the truth value that
  \<open>update_chart\<close> tests.
\<close>

definition dual_use_filter_value :: "string list option \<Rightarrow> bool" where
  "dual_use_filter_value v =
     (case v of None \<Rightarrow> False | Some l \<Rightarrow> l \<noteq> [] \<and> ''dual_use'' \<in> set l)"

text \<open>The block \<open>Handle graph reset\<close>: the new store and the filter value.\<close>

definition handle_reset :: "state \<Rightarrow> bool \<Rightarrow> request \<Rightarrow> state \<times> bool" where
  "handle_reset st flag req =
     (if str_in ''reset-graph-button'' (triggered_id req)
      then (\<lparr>companies = (\<lambda>q. []), logo_urls = [], logos = []\<rparr>, False)
      else (st, flag))"

text \<open>
  The store and the filter value after the three blocks, and the callback itself, which
  derives its four outputs from them. An exception that leaves the callback leaves the
  store as it was.
\<close>

definition apply_actions :: "resolver \<Rightarrow> state \<Rightarrow> request \<Rightarrow> error + (state \<times> bool)" where
  "apply_actions resolve st req =
     (case handle_add resolve st req of
        Inl e \<Rightarrow> Inl e
      | Inr st1 \<Rightarrow>
          Inr (handle_reset (handle_delete st1 req)
                 (dual_use_filter_value (dual_use_filter req)) req))"

type_synonym outputs = "string \<times> figure \<times> roster \<times> csv_row list"

definition update_output :: "resolver \<Rightarrow> state \<Rightarrow> request \<Rightarrow> error + (outputs \<times> state)" where
  "update_output resolve st req =
     (case apply_actions resolve st req of
        Inl e \<Rightarrow> Inl e
      | Inr (st', dual_use_filter_value') \<Rightarrow>
          Inr ((title req, update_chart st' dual_use_filter_value',
                generate_company_list st', generate_csv st'), st'))"

text \<open>The store after a request, whether the callback returned or raised.\<close>

definition store_after :: "resolver \<Rightarrow> state \<Rightarrow> request \<Rightarrow> state" where
  "store_after resolve st req =
     (case update_output resolve st req of Inl e \<Rightarrow> st | Inr (out, st') \<Rightarrow> st')"

section \<open>The grid of the specification\<close>

text \<open>
  The specification words the layout as a grid: the entity with index \<open>i\<close> in the
  enumeration of a quadrant with anchor \<open>(ax, ay)\<close> has the cell
  \<open>(ax + (i mod 3) * 10, ay - floor(i / 3) * 10)\<close>, and an image is placed there when the
  logo of the entity resolved. These definitions follow those words; the theorems compare
  them with the loops of \<open>update_chart\<close>.
\<close>

definition spec_cell :: "int \<times> int \<Rightarrow> nat \<Rightarrow> int \<times> int" where
  "spec_cell a i = (fst a + int (i mod 3) * 10, snd a - int (i div 3) * 10)"

definition spec_image ::
  "(string, string option) dict \<Rightarrow> int \<times> int \<Rightarrow> nat \<Rightarrow> string \<Rightarrow> layout_image list" where
  "spec_image lg a i company =
     (case logos_get lg company of
        None \<Rightarrow> []
      | Some logo \<Rightarrow>
          if logo \<noteq> [] then
            [\<lparr>img_source = logo, img_x = fst (spec_cell a i), img_y = snd (spec_cell a i),
              img_sizex = 10, img_sizey = 10\<rparr>]
          else [])"

definition spec_layout ::
  "(string, string option) dict \<Rightarrow> int \<times> int \<Rightarrow> (string, details) dict \<Rightarrow> layout_image list" where
  "spec_layout lg a d = concat (map (\<lambda>i. spec_image lg a i (fst (d ! i))) [0..<length d])"

definition image_position :: "layout_image \<Rightarrow> int \<times> int" where
  "image_position im = (img_x im, img_y im)"

section \<open>Example requests and stores\<close>

text \<open>
  The request of the page load, an addition with the form filled in, the click on a delete
  button, a resolver that succeeds and one that fails, and a store with two companies in
  one quadrant, the first without a logo.
\<close>

definition page_load_request :: request where
  "page_load_request =
     \<lparr>triggered_id = prop_id Page_Load, title = ''Magic Quadrant'', n_add_clicks = 0,
      dual_use_filter = None, n_reset_clicks = 0, n_delete_clicks = [],
      company_name = None, quadrant_value = None, dual_use_value = None, logo_url = None\<rparr>"

definition add_request :: "string \<Rightarrow> string \<Rightarrow> bool \<Rightarrow> request" where
  "add_request nm qv du =
     page_load_request
       \<lparr>triggered_id := prop_id Add_Company_Button, n_add_clicks := 1,
        company_name := Some nm, quadrant_value := Some qv,
        dual_use_value := (if du then Some [''dual_use''] else None),
        logo_url := Some ''https://example.org/logo.png''\<rparr>"

definition delete_request :: "string \<Rightarrow> request" where
  "delete_request nm =
     page_load_request\<lparr>triggered_id := prop_id (Delete_Button nm), n_delete_clicks := [1]\<rparr>"

definition filter_request :: request where
  "filter_request =
     page_load_request
       \<lparr>triggered_id := prop_id Dual_Use_Filter, dual_use_filter := Some [''dual_use'']\<rparr>"

definition reset_request :: request where
  "reset_request =
     page_load_request
       \<lparr>triggered_id := prop_id Reset_Graph_Button, n_reset_clicks := 1,
        dual_use_filter := Some [''dual_use'']\<rparr>"

definition resolve_ok :: resolver where
  "resolve_ok nm url = Some ''iVBORw0KGgo=''"

definition resolve_fail :: resolver where
  "resolve_fail nm url = None"

definition acme_store :: state where
  "acme_store =
     \<lparr>companies =
        (\<lambda>q. [])(Leaders := [(''Acme'', \<lparr>dual_use = False\<rparr>), (''Zeta'', \<lparr>dual_use = True\<rparr>)]),
      logo_urls =
        [(''Acme'', ''https://example.org/logo.png''), (''Zeta'', ''https://example.org/z.png'')],
      logos = [(''Acme'', None), (''Zeta'', Some ''data:image/png;base64,iVBORw0KGgo='')]\<rparr>"

section \<open>The loops in closed form\<close>

lemma add_logos_append:
  "add_logos lg xy es fig =
     fig @ concat (map (\<lambda>(i, company, d). spec_image lg xy i company) es)"
  by (induction lg xy es fig rule: add_logos.induct)
     (auto simp: spec_image_def spec_cell_def split: option.splits)

lemma enumerate_as_map: "enumerate n d = map (\<lambda>i. (n + i, d ! i)) [0..<length d]"
  by (rule nth_equalityI) (simp_all add: nth_enumerate_eq)

lemma add_logos_spec_layout: "add_logos lg a (enumerate 0 d) [] = spec_layout lg a d"
  by (simp add: add_logos_append spec_layout_def enumerate_as_map comp_def case_prod_beta)

lemma chart_loop_append:
  "chart_loop lg fc qs fig =
     fig @ concat (map (\<lambda>q. add_logos lg (positions q) (enumerate 0 (fc q)) []) qs)"
proof (induction qs arbitrary: fig)
  case Nil
  then show ?case by simp
next
  case (Cons q qs)
  have "add_logos lg (positions q) (enumerate 0 (fc q)) fig =
        fig @ add_logos lg (positions q) (enumerate 0 (fc q)) []"
    using add_logos_append [of lg "positions q" "enumerate 0 (fc q)" fig]
          add_logos_append [of lg "positions q" "enumerate 0 (fc q)" "[]"]
    by simp
  then show ?case by (simp add: Cons.IH)
qed

lemma spec_cell_inj: "inj (spec_cell a)"
proof (rule injI)
  fix i j :: nat
  assume "spec_cell a i = spec_cell a j"
  then have "int (i mod 3) = int (j mod 3)" and "int (i div 3) = int (j div 3)"
    by (simp_all add: spec_cell_def)
  then have "i mod 3 = j mod 3" and "i div 3 = j div 3"
    by simp_all
  then show "i = j"
    by (metis div_mult_mod_eq)
qed

lemma spec_layout_positions:
  "map image_position (spec_layout lg a d) =
     map (spec_cell a)
       (filter (\<lambda>i. case logos_get lg (fst (d ! i)) of None \<Rightarrow> False | Some logo \<Rightarrow> logo \<noteq> [])
          [0..<length d])"
proof -
  have "map image_position (concat (map (\<lambda>i. spec_image lg a i (fst (d ! i))) is)) =
        map (spec_cell a)
          (filter (\<lambda>i. case logos_get lg (fst (d ! i)) of None \<Rightarrow> False | Some logo \<Rightarrow> logo \<noteq> []) is)"
    for "is"
    by (induction "is") (auto simp: spec_image_def image_position_def split: option.splits)
  then show ?thesis by (simp add: spec_layout_def)
qed

lemma spec_layout_distinct: "distinct (map image_position (spec_layout lg a d))"
  unfolding spec_layout_positions
  by (rule distinct_map [THEN iffD2]) (simp add: inj_on_subset [OF spec_cell_inj])

lemma spec_image_member:
  assumes "i < length d" and "logos_get lg (fst (d ! i)) = Some logo" and "logo \<noteq> []"
  shows "\<lparr>img_source = logo, img_x = fst a + int (i mod 3) * 10,
           img_y = snd a - int (i div 3) * 10, img_sizex = 10, img_sizey = 10\<rparr>
         \<in> set (spec_layout lg a d)"
proof -
  have "\<lparr>img_source = logo, img_x = fst a + int (i mod 3) * 10,
           img_y = snd a - int (i div 3) * 10, img_sizex = 10, img_sizey = 10\<rparr>
        \<in> set (spec_image lg a i (fst (d ! i)))"
    using assms by (simp add: spec_image_def spec_cell_def)
  moreover have "i \<in> set [0..<length d]"
    using assms(1) by simp
  ultimately show ?thesis
    unfolding spec_layout_def set_concat set_map by blast
qed

lemma spec_layout_length:
  "length (spec_layout lg a d) =
     length (filter (\<lambda>(company, dt).
        case logos_get lg company of None \<Rightarrow> False | Some logo \<Rightarrow> logo \<noteq> []) d)"
proof -
  have "length (concat (map (\<lambda>(i, company, dt). spec_image lg a i company) es)) =
        length (filter (\<lambda>(company, dt).
          case logos_get lg company of None \<Rightarrow> False | Some logo \<Rightarrow> logo \<noteq> []) (map snd es))"
    for es :: "(nat \<times> string \<times> details) list"
    by (induction es) (auto simp: spec_image_def split: option.splits)
  from this [of "enumerate 0 d"] show ?thesis
    using add_logos_append [of lg a "enumerate 0 d" "[]"]
    by (simp add: add_logos_spec_layout)
qed

lemma csv_inner_append:
  "csv_inner qn d data =
     data @ map (\<lambda>(company, dt). \<lparr>Company = company, Quadrant = qn, Dual_Use = dual_use dt\<rparr>) d"
  by (induction qn d data rule: csv_inner.induct) auto

lemma csv_outer_append:
  "csv_outer cs qs data =
     data @ concat (map (\<lambda>q. map (\<lambda>(company, dt).
        \<lparr>Company = company, Quadrant = quadrant_name q, Dual_Use = dual_use dt\<rparr>) (cs q)) qs)"
  by (induction qs arbitrary: data) (auto simp: csv_inner_append)

lemma generate_csv_closed:
  "generate_csv st =
     concat (map (\<lambda>q. map (\<lambda>(company, dt).
        \<lparr>Company = company, Quadrant = quadrant_name q, Dual_Use = dual_use dt\<rparr>)
        (companies st q)) quadrants)"
  by (simp add: generate_csv_def csv_outer_append)

lemma apply_actions_filter:
  "apply_actions resolve st (req\<lparr>dual_use_filter := f\<rparr>) =
     map_sum id (\<lambda>(st', flag).
        (st', if str_in ''reset-graph-button'' (triggered_id req) then False
              else dual_use_filter_value f))
       (apply_actions resolve st req)"
  by (simp add: apply_actions_def handle_add_def handle_delete_def handle_reset_def
        split: option.splits sum.splits)

lemma str_in_add_button [simp]:
  "str_in ''add-company-button'' (prop_id Add_Company_Button)"
  "\<not> str_in ''delete-button'' (prop_id Add_Company_Button)"
  "\<not> str_in ''reset-graph-button'' (prop_id Add_Company_Button)"
  by simp_all

lemma str_in_reset_button [simp]:
  "\<not> str_in ''add-company-button'' (prop_id Reset_Graph_Button)"
  "\<not> str_in ''delete-button'' (prop_id Reset_Graph_Button)"
  "str_in ''reset-graph-button'' (prop_id Reset_Graph_Button)"
  by simp_all

lemma str_in_filter [simp]:
  "\<not> str_in ''add-company-button'' (prop_id Dual_Use_Filter)"
  "\<not> str_in ''delete-button'' (prop_id Dual_Use_Filter)"
  "\<not> str_in ''reset-graph-button'' (prop_id Dual_Use_Filter)"
  by simp_all

lemmas request_defs = page_load_request_def add_request_def delete_request_def
  filter_request_def reset_request_def

lemmas output_defs = update_chart_def filtered_companies_def quadrants_def
  generate_company_list_def generate_csv_def logos_get_def dict_get_def


section \<open>Dictionaries, property ids and the handlers\<close>

lemma dict_contains_simps:
  "dict_contains [] k = False"
  "dict_contains ((k', v) # d) k = (k' = k \<or> dict_contains d k)"
  by (auto simp: dict_contains_def)


















lemmas callback_defs = store_after_def update_output_def apply_actions_def handle_add_def
  handle_delete_def handle_reset_def eval_index_def split_dot_0_def delete_button_id_def
  quadrant_key_def bool_of_def fetch_logo_def dict_contains_simps dict_del_def

section \<open>The layout\<close>

text \<open>
  Claim C2. For every store, every filter value and every quadrant, the figure of
  \<open>update_chart\<close> is, quadrant after quadrant, the grid of the specification over the
  enumeration that the chart is drawn from (the quadrant's dictionary, or its dual-use
  part when the filter is on): the entity with index \<open>i\<close> has the cell
  \<open>(ax + (i mod 3) * 10, ay - (i div 3) * 10)\<close>. No two images of one quadrant have the
  same position, and no two indices have the same cell. The statement holds for every
  store, so for the store after any sequence of additions and deletions.
\<close>

theorem layout_grid_cells:
  "update_chart st flag =
     concat (map (\<lambda>q. spec_layout (logos st) (positions q)
                        (filtered_companies flag (companies st) q)) quadrants)
   \<and> distinct (map image_position
        (add_logos (logos st) (positions q)
           (enumerate 0 (filtered_companies flag (companies st) q)) []))
   \<and> inj (spec_cell (positions q))"
  by (simp add: update_chart_def chart_loop_append add_logos_spec_layout spec_layout_distinct
        spec_cell_inj)

text \<open>
  Claim C6. In the enumeration of a quadrant, an entity whose logo resolved has its image
  at the cell of its own index \<open>i\<close> in the whole enumeration, whatever the logos of the
  other entities are; an entity whose logo is missing has no image, so the number of images
  is the number of entities with a logo. The index is counted before the logo is tested.
\<close>

theorem unresolved_logo_keeps_index:
  "(i < length d \<longrightarrow> logos_get lg (fst (d ! i)) = Some logo \<longrightarrow> logo \<noteq> [] \<longrightarrow>
      \<lparr>img_source = logo, img_x = fst a + int (i mod 3) * 10,
        img_y = snd a - int (i div 3) * 10, img_sizex = 10, img_sizey = 10\<rparr>
      \<in> set (add_logos lg a (enumerate 0 d) []))
   \<and> length (add_logos lg a (enumerate 0 d) []) =
       length (filter (\<lambda>(company, dt).
         case logos_get lg company of None \<Rightarrow> False | Some logo \<Rightarrow> logo \<noteq> []) d)"
  by (simp add: add_logos_spec_layout spec_image_member spec_layout_length)

theorem unresolved_logo_keeps_index_witness:
  "1 < length (companies acme_store Leaders)
   \<and> logos_get (logos acme_store) (fst (companies acme_store Leaders ! 0)) = None
   \<and> logos_get (logos acme_store) (fst (companies acme_store Leaders ! 1)) =
       Some ''data:image/png;base64,iVBORw0KGgo=''
   \<and> \<lparr>img_source = ''data:image/png;base64,iVBORw0KGgo='', img_x = 85, img_y = 75,
        img_sizex = 10, img_sizey = 10\<rparr>
      \<in> set (add_logos (logos acme_store) (positions Leaders)
                (enumerate 0 (companies acme_store Leaders)) [])
   \<and> length (add_logos (logos acme_store) (positions Leaders)
                (enumerate 0 (companies acme_store Leaders)) []) = 1"
  using unresolved_logo_keeps_index
    [of 1 "companies acme_store Leaders" "logos acme_store"
        "''data:image/png;base64,iVBORw0KGgo=''" "positions Leaders"]
  by (simp add: acme_store_def logos_get_def dict_get_def)

section \<open>The export\<close>

text \<open>
  Claim C7. Whenever the callback returns, its export is one record per entity of the
  store after the request, with the fields \<open>Company\<close>, \<open>Quadrant\<close> and \<open>Dual Use\<close>,
  quadrant after quadrant in the order of \<open>companies\<close> and in insertion order inside a
  quadrant; the number of records is the number of entities in the four quadrants. The
  same request with any other value of the filter returns the same title, roster, export
  and store: only the figure depends on the filter. For every store, the export built
  from it has as many records as the four quadrants have entities.
\<close>

theorem export_is_full_roster:
  assumes "update_output resolve st req = Inr ((t, fig, ros, csv), st')"
  shows "csv = concat (map (\<lambda>q. map (\<lambda>(company, dt).
                  \<lparr>Company = company, Quadrant = quadrant_name q, Dual_Use = dual_use dt\<rparr>)
                  (companies st' q)) quadrants)
         \<and> length csv = sum_list (map (\<lambda>q. length (companies st' q)) quadrants)
         \<and> (\<exists>fig'. update_output resolve st (req\<lparr>dual_use_filter := f\<rparr>) =
               Inr ((t, fig', ros, csv), st'))
         \<and> length (generate_csv st0) = sum_list (map (\<lambda>q. length (companies st0 q)) quadrants)"
proof -
  from assms obtain flag where a: "apply_actions resolve st req = Inr (st', flag)"
    and c: "csv = generate_csv st'" and r: "ros = generate_company_list st'" and t: "t = title req"
    by (auto simp: update_output_def split: sum.splits)
  have "csv = concat (map (\<lambda>q. map (\<lambda>(company, dt).
                  \<lparr>Company = company, Quadrant = quadrant_name q, Dual_Use = dual_use dt\<rparr>)
                  (companies st' q)) quadrants)"
    using c by (simp add: generate_csv_closed)
  moreover from this have "length csv = sum_list (map (\<lambda>q. length (companies st' q)) quadrants)"
    by (simp add: length_concat comp_def)
  moreover have "\<exists>fig'. update_output resolve st (req\<lparr>dual_use_filter := f\<rparr>) =
               Inr ((t, fig', ros, csv), st')"
    using a c r t by (simp add: update_output_def apply_actions_filter)
  moreover have "length (generate_csv st0) =
                 sum_list (map (\<lambda>q. length (companies st0 q)) quadrants)"
    by (simp add: generate_csv_closed length_concat comp_def)
  ultimately show ?thesis by blast
qed

theorem export_is_full_roster_witness:
  "update_output resolve_fail acme_store filter_request =
     Inr ((''Magic Quadrant'', update_chart acme_store True, generate_company_list acme_store,
           [\<lparr>Company = ''Acme'', Quadrant = ''Leaders'', Dual_Use = False\<rparr>,
            \<lparr>Company = ''Zeta'', Quadrant = ''Leaders'', Dual_Use = True\<rparr>]), acme_store)
   \<and> length [\<lparr>Company = ''Acme'', Quadrant = ''Leaders'', Dual_Use = False\<rparr>,
              \<lparr>Company = ''Zeta'', Quadrant = ''Leaders'', Dual_Use = True\<rparr>] =
       sum_list (map (\<lambda>q. length (companies acme_store q)) quadrants)
   \<and> length (update_chart acme_store True) = 1"
proof -
  have h: "update_output resolve_fail acme_store filter_request =
     Inr ((''Magic Quadrant'', update_chart acme_store True, generate_company_list acme_store,
           [\<lparr>Company = ''Acme'', Quadrant = ''Leaders'', Dual_Use = False\<rparr>,
            \<lparr>Company = ''Zeta'', Quadrant = ''Leaders'', Dual_Use = True\<rparr>]), acme_store)"
    by (simp add: update_output_def apply_actions_def handle_add_def handle_delete_def
          handle_reset_def request_defs dual_use_filter_value_def generate_csv_def quadrants_def
          acme_store_def)
  have "length (update_chart acme_store True) = 1"
    by (simp add: output_defs acme_store_def)
  then show ?thesis
    using h export_is_full_roster [OF h, of None] by blast
qed

section \<open>The addition with a missing field\<close>



section \<open>The reset\<close>

text \<open>
  Claim C9. When the reset button fired, the store after the request is the empty one
  (every quadrant empty, no logo URL, no logo), the filter value that the chart is drawn
  with is false whatever the filter checklist holds, and the title that is returned is the
  title of the request.
\<close>

theorem reset_clears_store:
  assumes "triggered_id req = prop_id Reset_Graph_Button"
  shows "apply_actions resolve st req = Inr (initial_state, False)
         \<and> update_output resolve st req =
             Inr ((title req, [], map (\<lambda>q. (quadrant_name q, [])) quadrants, []),
                  initial_state)
         \<and> companies initial_state q = [] \<and> logo_urls initial_state = []
         \<and> logos initial_state = []"
proof -
  have a: "apply_actions resolve st req = Inr (initial_state, False)"
    using assms
    by (simp add: apply_actions_def handle_add_def handle_delete_def handle_reset_def
          initial_state_def del: prop_id.simps)
  have "update_chart initial_state False = []"
    by (simp add: update_chart_def initial_state_def filtered_companies_def quadrants_def)
  moreover have "generate_company_list initial_state = map (\<lambda>q. (quadrant_name q, [])) quadrants"
    by (simp add: generate_company_list_def initial_state_def)
  moreover have "generate_csv initial_state = []"
    by (simp add: generate_csv_def initial_state_def quadrants_def)
  ultimately show ?thesis
    using a by (simp add: update_output_def initial_state_def quadrants_def)
qed

theorem reset_clears_store_witness:
  "triggered_id reset_request = prop_id Reset_Graph_Button
   \<and> dual_use_filter_value (dual_use_filter reset_request)
   \<and> title reset_request = ''Magic Quadrant''
   \<and> apply_actions resolve_ok acme_store reset_request = Inr (initial_state, False)
   \<and> update_output resolve_ok acme_store reset_request =
       Inr ((''Magic Quadrant'', [], map (\<lambda>q. (quadrant_name q, [])) quadrants, []),
            initial_state)"
proof -
  have h: "triggered_id reset_request = prop_id Reset_Graph_Button"
    by (simp add: request_defs)
  show ?thesis
    using h reset_clears_store [OF h, of resolve_ok acme_store]
    by (simp add: request_defs dual_use_filter_value_def)
qed

section \<open>The filter\<close>

text \<open>
  Claim C5. A request of the filter checklist with the filter on returns the store as it
  was, with the roster and the export of that store, and a figure drawn from the filtered
  dictionaries: for every quadrant the filtered dictionary holds exactly the entries of
  the quadrant with \<open>dual_use\<close> true, and the figure still runs through the four
  quadrants. For any request at all, the store after it does not depend on the value of
  the filter.
\<close>

theorem filter_leaves_store:
  assumes "triggered_id req = prop_id Dual_Use_Filter"
    and "dual_use_filter req = Some l" and "''dual_use'' \<in> set l"
  shows "update_output resolve st req =
           Inr ((title req, update_chart st True, generate_company_list st, generate_csv st), st)
         \<and> update_chart st True =
             concat (map (\<lambda>q. spec_layout (logos st) (positions q)
                                [(company, dt) \<leftarrow> companies st q. dual_use dt]) quadrants)
         \<and> set (filtered_companies True (companies st) q) =
             {(company, dt). (company, dt) \<in> set (companies st q) \<and> dual_use dt}
         \<and> store_after resolve st' (req'\<lparr>dual_use_filter := f\<rparr>) = store_after resolve st' req'"
proof -
  have "dual_use_filter_value (dual_use_filter req)"
    using assms(2,3) by (auto simp: dual_use_filter_value_def)
  then have "update_output resolve st req =
           Inr ((title req, update_chart st True, generate_company_list st, generate_csv st), st)"
    using assms(1)
    by (simp add: update_output_def apply_actions_def handle_add_def handle_delete_def
          handle_reset_def del: prop_id.simps)
  moreover have "update_chart st True =
             concat (map (\<lambda>q. spec_layout (logos st) (positions q)
                                [(company, dt) \<leftarrow> companies st q. dual_use dt]) quadrants)"
    by (simp add: update_chart_def chart_loop_append add_logos_spec_layout filtered_companies_def)
  moreover have "set (filtered_companies True (companies st) q) =
             {(company, dt). (company, dt) \<in> set (companies st q) \<and> dual_use dt}"
    by (auto simp: filtered_companies_def)
  moreover have "store_after resolve st' (req'\<lparr>dual_use_filter := f\<rparr>) = store_after resolve st' req'"
    by (cases "apply_actions resolve st' req'")
       (auto simp: store_after_def update_output_def apply_actions_filter)
  ultimately show ?thesis by blast
qed

theorem filter_leaves_store_witness:
  "triggered_id filter_request = prop_id Dual_Use_Filter
   \<and> dual_use_filter filter_request = Some [''dual_use'']
   \<and> ''dual_use'' \<in> set [''dual_use'']
   \<and> update_output resolve_fail acme_store filter_request =
       Inr ((''Magic Quadrant'',
             [\<lparr>img_source = ''data:image/png;base64,iVBORw0KGgo='', img_x = 75, img_y = 75,
               img_sizex = 10, img_sizey = 10\<rparr>],
             generate_company_list acme_store, generate_csv acme_store), acme_store)
   \<and> filtered_companies True (companies acme_store) Leaders = [(''Zeta'', \<lparr>dual_use = True\<rparr>)]
   \<and> companies acme_store Leaders =
       [(''Acme'', \<lparr>dual_use = False\<rparr>), (''Zeta'', \<lparr>dual_use = True\<rparr>)]"
proof -
  have h: "triggered_id filter_request = prop_id Dual_Use_Filter"
    "dual_use_filter filter_request = Some [''dual_use'']" "''dual_use'' \<in> set [''dual_use'']"
    by (simp_all add: request_defs)
  have "update_chart acme_store True =
      [\<lparr>img_source = ''data:image/png;base64,iVBORw0KGgo='', img_x = 75, img_y = 75,
               img_sizex = 10, img_sizey = 10\<rparr>]"
    by (simp add: output_defs acme_store_def)
  moreover have "title filter_request = ''Magic Quadrant''"
    by (simp add: request_defs)
  ultimately show ?thesis
    using h filter_leaves_store [OF h, of resolve_fail acme_store Leaders]
    by (simp add: filtered_companies_def acme_store_def)
qed

section \<open>Addition followed by deletion\<close>




section \<open>Adding a name again in its quadrant\<close>



section \<open>One name in two quadrants\<close>

text \<open>
  Claim C1 does not hold of the code. From the empty store, adding Acme to the leaders and
  then Acme to the challengers leaves Acme in both quadrants: the addition assigns into
  the chosen quadrant and looks at no other. A deletion of Acme then removes the entry of
  the first quadrant and the one logo, and the other entry stays, without a logo.
\<close>

theorem same_name_in_two_quadrants:
  "map (companies
          (store_after resolve_ok
             (store_after resolve_ok initial_state (add_request ''Acme'' ''Leaders'' False))
             (add_request ''Acme'' ''Challengers'' True)))
       quadrants =
     [[], [(''Acme'', \<lparr>dual_use = False\<rparr>)], [], [(''Acme'', \<lparr>dual_use = True\<rparr>)]]
   \<and> map (companies
            (store_after resolve_ok
               (store_after resolve_ok
                  (store_after resolve_ok initial_state (add_request ''Acme'' ''Leaders'' False))
                  (add_request ''Acme'' ''Challengers'' True))
               (delete_request ''Acme'')))
         quadrants =
       [[], [], [], [(''Acme'', \<lparr>dual_use = True\<rparr>)]]
   \<and> logos (store_after resolve_ok
               (store_after resolve_ok
                  (store_after resolve_ok initial_state (add_request ''Acme'' ''Leaders'' False))
                  (add_request ''Acme'' ''Challengers'' True))
               (delete_request ''Acme'')) = []"
  by (simp add: callback_defs request_defs initial_state_def resolve_ok_def quadrants_def)

section \<open>A delete click that runs another action\<close>

text \<open>
  Claim C4 does not hold of the code. The three blocks test whether a fixed word occurs in
  the property id, and the property id of a delete button contains the name of its
  company. With Acme among the leaders and a company named \<open>reset-graph-button\<close> among
  the challengers, the click on the delete button of the latter also runs the reset and
  empties the whole store. With a company named \<open>add-company-button\<close>, the click on its
  delete button first adds the company that the form still holds.
\<close>

theorem delete_click_runs_other_actions:
  "map (companies
          (store_after resolve_ok
             (store_after resolve_ok initial_state (add_request ''Acme'' ''Leaders'' False))
             (add_request ''reset-graph-button'' ''Challengers'' False)))
       quadrants =
     [[], [(''Acme'', \<lparr>dual_use = False\<rparr>)], [],
      [(''reset-graph-button'', \<lparr>dual_use = False\<rparr>)]]
   \<and> update_output resolve_ok
        (store_after resolve_ok
           (store_after resolve_ok initial_state (add_request ''Acme'' ''Leaders'' False))
           (add_request ''reset-graph-button'' ''Challengers'' False))
        (delete_request ''reset-graph-button'') =
       Inr ((''Magic Quadrant'', [], map (\<lambda>q. (quadrant_name q, [])) quadrants, []),
            initial_state)
   \<and> map (companies
            (store_after resolve_ok
               (store_after resolve_ok initial_state
                  (add_request ''add-company-button'' ''Challengers'' False))
               ((add_request ''Zed'' ''Leaders'' False)
                  \<lparr>triggered_id := prop_id (Delete_Button ''add-company-button'')\<rparr>)))
         quadrants =
       [[], [(''Zed'', \<lparr>dual_use = False\<rparr>)], [], []]"
  by (simp add: callback_defs request_defs output_defs initial_state_def resolve_ok_def)

end
